theory Spec2Isabelle
  imports Complex_Main
begin

section \<open>JavaScript values and string helpers\<close>

text \<open>
  The route handlers receive their inputs as JavaScript values: path segments and query
  parameters are strings (or missing), body fields are arbitrary JSON. A handler uses such a
  value only through its truthiness, through strict comparison with string literals and
  through its \<^verbatim>\<open>ToString\<close> rendering, so every value that is not a string is
  represented by exactly these two observations.

  Strings are lists of characters; whitespace is the ASCII part of what
  \<^verbatim>\<open>String.prototype.trim\<close> and \<^verbatim>\<open>parseInt\<close> skip (tab, line feed,
  vertical tab, form feed, carriage return, space). Numbers produced by
  \<^verbatim>\<open>parseInt\<close> are unbounded integers: the rounding of doubles beyond
  \<open>2^53\<close> is not part of the model.
\<close>

datatype jsval =
    JUndefined
  | JStr string
  | JOther (other_truthy: bool) (other_rendering: string)

fun js_truthy :: "jsval \<Rightarrow> bool" where
  "js_truthy JUndefined = False"
| "js_truthy (JStr s) = (s \<noteq> [])"
| "js_truthy (JOther b r) = b"

fun js_to_string :: "jsval \<Rightarrow> string" where
  "js_to_string JUndefined = ''undefined''"
| "js_to_string (JStr s) = s"
| "js_to_string (JOther b r) = r"

definition is_ws :: "char \<Rightarrow> bool" where
  "is_ws c = (c \<in> set [CHR 0x09, CHR 0x0A, CHR 0x0B, CHR 0x0C, CHR 0x0D, CHR '' ''])"

definition js_trim :: "string \<Rightarrow> string" where
  "js_trim s = rev (dropWhile is_ws (rev (dropWhile is_ws s)))"

definition digit_val :: "char \<Rightarrow> nat option" where
  "digit_val c =
     (let n = (of_char c :: nat) in
      if 48 \<le> n \<and> n \<le> 57 then Some (n - 48)
      else if 97 \<le> n \<and> n \<le> 122 then Some (n - 87)
      else if 65 \<le> n \<and> n \<le> 90 then Some (n - 55)
      else None)"

definition radix_digit :: "nat \<Rightarrow> char \<Rightarrow> nat option" where
  "radix_digit R c =
     (case digit_val c of
        None \<Rightarrow> None
      | Some d \<Rightarrow> if d < R then Some d else None)"

fun take_digits :: "nat \<Rightarrow> string \<Rightarrow> nat list" where
  "take_digits R [] = []"
| "take_digits R (c # cs) =
     (case radix_digit R c of
        None \<Rightarrow> []
      | Some d \<Rightarrow> d # take_digits R cs)"

definition digits_to_int :: "nat \<Rightarrow> nat list \<Rightarrow> int" where
  "digits_to_int R ds = int (foldl (\<lambda>acc d. acc * R + d) 0 ds)"

text \<open>
  \<^verbatim>\<open>parseInt(string)\<close> without a radix: skip leading whitespace, read an optional
  sign, switch to radix 16 after a \<^verbatim>\<open>0x\<close> or \<^verbatim>\<open>0X\<close> prefix, take the longest
  prefix of digits, and answer \<^verbatim>\<open>NaN\<close> (here \<open>None\<close>) when that prefix is empty.
\<close>

definition strip_sign :: "string \<Rightarrow> int \<times> string" where
  "strip_sign s =
     (case s of
        [] \<Rightarrow> (1, [])
      | c # cs \<Rightarrow>
          if c = CHR ''-'' then (- 1, cs)
          else if c = CHR ''+'' then (1, cs)
          else (1, s))"

definition strip_hex_prefix :: "string \<Rightarrow> nat \<times> string" where
  "strip_hex_prefix s =
     (case s of
        a # b # cs \<Rightarrow>
          if a = CHR ''0'' \<and> (b = CHR ''x'' \<or> b = CHR ''X'') then (16, cs) else (10, s)
      | _ \<Rightarrow> (10, s))"

definition js_parseInt :: "string \<Rightarrow> int option" where
  "js_parseInt inputString =
     (let (sign, s1) = strip_sign (dropWhile is_ws inputString);
          (R, s2) = strip_hex_prefix s1;
          Z = take_digits R s2
      in if Z = [] then None else Some (sign * digits_to_int R Z))"

section \<open>Tenant guard\<close>











section \<open>Growth percentages of the realtime metrics\<close>










section \<open>Stored data and replies\<close>

text \<open>
  The tables the routes read and write, each a list of rows with the columns the modelled
  statements mention. Identifiers are integers (any linearly ordered key type would do),
  timestamps are integers, and a path segment that names a row is taken as the identifier
  it denotes. Failures of the storage engine that do not depend on the statement
  (connectivity, constraints of tables outside the model) are not modelled.

  A handler replies either with \<^verbatim>\<open>{success: true, data}\<close> or with a status code and
  \<^verbatim>\<open>{success: false, error: {message}}\<close>.
\<close>

record company =
  company_id :: int
  company_name :: string

record contact =
  contact_id :: int
  contact_name :: string
  contact_created_at :: int

record session =
  session_id :: int
  session_company_id :: int
  session_contact_id :: int
  session_status :: int
  session_created_at :: int

record message =
  message_id :: int
  message_session_id :: int
  message_company_id :: int
  message_content :: string
  message_created_at :: int

record lead =
  lead_id :: int
  lead_company_id :: int
  lead_contact_id :: int

record knowledge_entry =
  knowledge_id :: int
  knowledge_session_id :: int
  knowledge_company_id :: int

record stock_item =
  stock_id :: int
  stock_empresa :: string

record test_metric =
  metric_company_id :: int
  metric_month :: int
  metric_totalConversations :: int

record database =
  companies :: "company list"
  contacts :: "contact list"
  sessions :: "session list"
  conversations :: "message list"
  leads :: "lead list"
  knowledge_vault :: "knowledge_entry list"
  stock :: "stock_item list"
  test_metrics :: "test_metric list"

datatype 'a reply =
    Success 'a
  | Failure nat string

fun is_success :: "'a reply \<Rightarrow> bool" where
  "is_success (Success d) = True"
| "is_success (Failure code msg) = False"

fun status_code :: "'a reply \<Rightarrow> nat" where
  "status_code (Success d) = 200"
| "status_code (Failure code msg) = code"

section \<open>Session details and session status update\<close>

text \<open>
  A JSON body value, as \<^verbatim>\<open>express.json()\<close> hands it to the handler. Numbers are the
  values of doubles, so rationals cover them.
\<close>

datatype json =
    JNull
  | JBool bool
  | JNumber rat
  | JString string
  | JArray "json list"
  | JObject "(string \<times> json) list"

fun number_isInteger :: "json \<Rightarrow> bool" where
  "number_isInteger (JNumber r) = (of_int \<lfloor>r\<rfloor> = r)"
| "number_isInteger v = False"

fun number_of :: "json \<Rightarrow> rat" where
  "number_of (JNumber r) = r"
| "number_of v = 0"

text \<open>
  \<^verbatim>\<open>GET /api/sessions/:id\<close>: \<^verbatim>\<open>SELECT ... FROM sessions s ... WHERE s.id = $1\<close>,
  404 when no row comes back, else the first row.
\<close>

definition get_session_details :: "database \<Rightarrow> int \<Rightarrow> session reply" where
  "get_session_details db sid =
     (case filter (\<lambda>s. session_id s = sid) (sessions db) of
        [] \<Rightarrow> Failure 404 ''Session not found''
      | s # rest \<Rightarrow> Success s)"

text \<open>
  \<^verbatim>\<open>PUT /api/sessions/:id/status\<close>. The body's \<^verbatim>\<open>status\<close> is \<open>None\<close> when the field
  is missing. The check is
  \<^verbatim>\<open>!Number.isInteger(status) || status < 0 || status > 4\<close>; the statement is
  \<^verbatim>\<open>UPDATE sessions SET status = $1 WHERE id = $2 RETURNING id, status, created_at\<close>.
  The handler returns its reply and the database it leaves behind.
\<close>

definition update_status :: "int \<Rightarrow> int \<Rightarrow> session list \<Rightarrow> session list" where
  "update_status sid n rows =
     map (\<lambda>s. if session_id s = sid then s\<lparr>session_status := n\<rparr> else s) rows"

definition put_session_status :: "database \<Rightarrow> int \<Rightarrow> json option \<Rightarrow> session reply \<times> database" where
  "put_session_status db sid status =
     (case status of
        None \<Rightarrow> (Failure 400 ''Session ID and status are required'', db)
      | Some v \<Rightarrow>
          if \<not> number_isInteger v \<or> number_of v < 0 \<or> number_of v > 4
          then (Failure 400 ''Status must be an integer between 0 and 4'', db)
          else
            (let db' = db\<lparr>sessions := update_status sid \<lfloor>number_of v\<rfloor> (sessions db)\<rparr>
             in case filter (\<lambda>s. session_id s = sid) (sessions db') of
                  [] \<Rightarrow> (Failure 404 ''Session not found'', db')
                | s # rest \<Rightarrow> (Success s, db')))"

definition valid_status :: "json option \<Rightarrow> bool" where
  "valid_status status =
     (case status of
        Some (JNumber r) \<Rightarrow> of_int \<lfloor>r\<rfloor> = r \<and> 0 \<le> r \<and> r \<le> 4
      | _ \<Rightarrow> False)"

lemma put_invalid:
  "\<not> valid_status status \<Longrightarrow>
     status_code (fst (put_session_status db sid status)) = 400
     \<and> snd (put_session_status db sid status) = db"
  by (auto simp: put_session_status_def valid_status_def split: option.splits json.splits)

lemma put_success_valid:
  "is_success (fst (put_session_status db sid status)) \<Longrightarrow> valid_status status"
  by (auto simp: put_session_status_def valid_status_def Let_def
      split: option.splits json.splits list.splits if_splits)

lemma filter_update_status_same:
  "filter (\<lambda>s. session_id s = sid) (update_status sid n rows) =
     map (\<lambda>s. s\<lparr>session_status := n\<rparr>) (filter (\<lambda>s. session_id s = sid) rows)"
  by (induction rows) (auto simp: update_status_def)

lemma filter_update_status_other:
  "filter (\<lambda>s. session_id s \<noteq> sid) (update_status sid n rows) =
     filter (\<lambda>s. session_id s \<noteq> sid) rows"
  by (induction rows) (auto simp: update_status_def)

lemma put_valid_found:
  assumes "0 \<le> n" "n \<le> 4" "s0 \<in> set (sessions db)" "session_id s0 = sid"
  shows "is_success (fst (put_session_status db sid (Some (JNumber (of_int n)))))
       \<and> (\<exists>s. get_session_details (snd (put_session_status db sid (Some (JNumber (of_int n))))) sid
                 = Success s \<and> session_status s = n)"
proof -
  have "filter (\<lambda>s. session_id s = sid) (sessions db) \<noteq> []"
    using assms(3,4) by (auto simp: filter_empty_conv)
  then obtain a as where f: "filter (\<lambda>s. session_id s = sid) (sessions db) = a # as"
    by (cases "filter (\<lambda>s. session_id s = sid) (sessions db)") auto
  show ?thesis
    using assms(1,2) f
    by (simp add: put_session_status_def Let_def get_session_details_def filter_update_status_same)
qed

lemma put_sessions_frame:
  "filter (\<lambda>s. session_id s \<noteq> sid) (sessions (snd (put_session_status db sid status))) =
     filter (\<lambda>s. session_id s \<noteq> sid) (sessions db)"
  by (auto simp: put_session_status_def Let_def filter_update_status_other
      split: option.splits list.splits)

definition example_db :: database where
  "example_db =
     \<lparr>companies = [\<lparr>company_id = 1, company_name = ''Alfa''\<rparr>,
                   \<lparr>company_id = 2, company_name = ''Beta''\<rparr>],
      contacts = [\<lparr>contact_id = 5, contact_name = ''Ana'', contact_created_at = 90\<rparr>],
      sessions = [\<lparr>session_id = 10, session_company_id = 2, session_contact_id = 5,
                    session_status = 0, session_created_at = 100\<rparr>],
      conversations = [\<lparr>message_id = 1, message_session_id = 10, message_company_id = 2,
                         message_content = ''first'', message_created_at = 110\<rparr>,
                       \<lparr>message_id = 2, message_session_id = 10, message_company_id = 2,
                         message_content = ''second'', message_created_at = 110\<rparr>],
      leads = [\<lparr>lead_id = 30, lead_company_id = 2, lead_contact_id = 5\<rparr>],
      knowledge_vault = [],
      stock = [\<lparr>stock_id = 40, stock_empresa = ''Beta''\<rparr>],
      test_metrics = [\<lparr>metric_company_id = 2, metric_month = 202601, metric_totalConversations = 900\<rparr>]\<rparr>"

text \<open>
  Claim C5. The update succeeds only for a status that is an integer from 0 to 4; any other
  status (a missing one, a string, 7, 2.5) gets a 400 reply and leaves the database as it
  was; a valid status on an existing session succeeds, and reading the session afterwards
  shows exactly that status; the update touches no session other than the one named (the
  reads are functions of the database and change nothing).
\<close>

theorem put_session_status_contract:
  "(is_success (fst (put_session_status db sid status)) \<longrightarrow> valid_status status)
   \<and> (\<not> valid_status status \<longrightarrow>
        status_code (fst (put_session_status db sid status)) = 400
        \<and> snd (put_session_status db sid status) = db)
   \<and> (\<forall>n. status = Some (JNumber (of_int n)) \<and> 0 \<le> n \<and> n \<le> 4
           \<and> (\<exists>s \<in> set (sessions db). session_id s = sid) \<longrightarrow>
        is_success (fst (put_session_status db sid status))
        \<and> (\<exists>s. get_session_details (snd (put_session_status db sid status)) sid = Success s
                 \<and> session_status s = n))
   \<and> filter (\<lambda>s. session_id s \<noteq> sid) (sessions (snd (put_session_status db sid status))) =
       filter (\<lambda>s. session_id s \<noteq> sid) (sessions db)"
  using put_success_valid [of db sid status] put_invalid [of status db sid]
    put_sessions_frame [of sid db status] put_valid_found [of _ _ db sid]
  by blast

text \<open>
  On a database with session 10 in status 0: status 3 is stored and read back, status 7 is
  refused and nothing changes.
\<close>

theorem put_session_status_contract_witness:
  "get_session_details (snd (put_session_status example_db 10 (Some (JNumber 3)))) 10 =
     Success \<lparr>session_id = 10, session_company_id = 2, session_contact_id = 5,
               session_status = 3, session_created_at = 100\<rparr>
   \<and> put_session_status example_db 10 (Some (JNumber 7)) =
       (Failure 400 ''Status must be an integer between 0 and 4'', example_db)"
  using put_session_status_contract [of example_db 10 "Some (JNumber 3)"]
    put_session_status_contract [of example_db 10 "Some (JNumber 7)"]
  by (simp add: put_session_status_def get_session_details_def update_status_def example_db_def)

section \<open>Company reads and deletion\<close>











section \<open>Historical metrics\<close>











section \<open>Tenant isolation of the reads\<close>

text \<open>
  The listings run behind the tenant guard, take the company identifier and restrict their
  statement to it (\<^verbatim>\<open>WHERE s.company_id = $1\<close>, \<^verbatim>\<open>WHERE l.company_id = $1\<close>; for
  stock the company's name is looked up first and the statement has
  \<^verbatim>\<open>WHERE "EMPRESA" = $1\<close>). The detail reads
  \<^verbatim>\<open>GET /api/sessions/:id\<close>, \<^verbatim>\<open>GET /api/conversations/:sessionId\<close>,
  \<^verbatim>\<open>GET /api/leads/:id\<close> and \<^verbatim>\<open>GET /api/stock/:id\<close> are mounted without the guard;
  their statements are \<^verbatim>\<open>WHERE s.id = $1\<close>, \<^verbatim>\<open>WHERE l.id = $1\<close> and
  \<^verbatim>\<open>WHERE id = $1\<close>, and the handlers take no company identifier at all.
  \<^verbatim>\<open>get_session_details\<close> above is the first of them.
\<close>

definition list_sessions :: "database \<Rightarrow> int \<Rightarrow> session list" where
  "list_sessions db companyId = filter (\<lambda>s. session_company_id s = companyId) (sessions db)"

definition list_leads :: "database \<Rightarrow> int \<Rightarrow> lead list" where
  "list_leads db companyId = filter (\<lambda>l. lead_company_id l = companyId) (leads db)"

definition list_stock :: "database \<Rightarrow> int \<Rightarrow> stock_item list reply" where
  "list_stock db companyId =
     (case filter (\<lambda>c. company_id c = companyId) (companies db) of
        [] \<Rightarrow> Failure 404 ''Company not found''
      | c # rest \<Rightarrow> Success (filter (\<lambda>v. stock_empresa v = company_name c) (stock db)))"

definition get_lead_details :: "database \<Rightarrow> int \<Rightarrow> lead reply" where
  "get_lead_details db lid =
     (case filter (\<lambda>l. lead_id l = lid) (leads db) of
        [] \<Rightarrow> Failure 404 ''Lead not found''
      | l # rest \<Rightarrow> Success l)"

definition get_vehicle_details :: "database \<Rightarrow> int \<Rightarrow> stock_item reply" where
  "get_vehicle_details db vid =
     (case filter (\<lambda>v. stock_id v = vid) (stock db) of
        [] \<Rightarrow> Failure 404 ''Vehicle not found''
      | v # rest \<Rightarrow> Success v)"

lemma list_sessions_isolated:
  "s \<in> set (list_sessions db companyId) \<Longrightarrow> session_company_id s = companyId"
  by (simp add: list_sessions_def)

lemma list_leads_isolated:
  "l \<in> set (list_leads db companyId) \<Longrightarrow> lead_company_id l = companyId"
  by (simp add: list_leads_def)

lemma list_stock_isolated:
  assumes "list_stock db companyId = Success vs" and "v \<in> set vs"
  shows "\<exists>c \<in> set (companies db). company_id c = companyId \<and> stock_empresa v = company_name c"
proof (cases "filter (\<lambda>c. company_id c = companyId) (companies db)")
  case Nil
  with assms(1) show ?thesis by (simp add: list_stock_def)
next
  case (Cons c rest)
  then have "c \<in> set (filter (\<lambda>c. company_id c = companyId) (companies db))" by simp
  then have "c \<in> set (companies db)" "company_id c = companyId" by simp_all
  moreover from Cons assms have "stock_empresa v = company_name c"
    by (auto simp: list_stock_def)
  ultimately show ?thesis by blast
qed

text \<open>
  Claim C1 at its failing input. In the example database session 10, lead 30 and vehicle 40
  belong to company 2 (``Beta''). The listings of company 1 contain none of them, but the
  three detail reads, which a caller working for company 1 can issue as well as anyone,
  return each of them.
\<close>

theorem detail_reads_ignore_tenant:
  "list_sessions example_db 1 = []
   \<and> list_leads example_db 1 = []
   \<and> list_stock example_db 1 = Success []
   \<and> get_session_details example_db 10 =
       Success \<lparr>session_id = 10, session_company_id = 2, session_contact_id = 5,
                 session_status = 0, session_created_at = 100\<rparr>
   \<and> get_lead_details example_db 30 =
       Success \<lparr>lead_id = 30, lead_company_id = 2, lead_contact_id = 5\<rparr>
   \<and> get_vehicle_details example_db 40 = Success \<lparr>stock_id = 40, stock_empresa = ''Beta''\<rparr>"
  by (simp add: list_sessions_def list_leads_def list_stock_def get_session_details_def
      get_lead_details_def get_vehicle_details_def example_db_def)

section \<open>Contact rollups\<close>

text \<open>
  \<^verbatim>\<open>GET /api/conversations/contacts\<close> joins each contact with its sessions of the
  company (\<^verbatim>\<open>INNER JOIN sessions s ON s.contact_id = ct.id WHERE s.company_id = $1\<close>),
  groups by contact and reports, among others,
  \<^verbatim>\<open>COUNT(s.id) as session_count\<close> and
  \<^verbatim>\<open>COUNT(CASE WHEN s.status IN (1, 2) THEN 1 END) as active_sessions\<close>.
  The metrics routes count active sessions with \<^verbatim>\<open>status IN (0, 1, 2)\<close>.
\<close>

definition contact_sessions :: "database \<Rightarrow> int \<Rightarrow> int \<Rightarrow> session list" where
  "contact_sessions db companyId ctid =
     filter (\<lambda>s. session_contact_id s = ctid \<and> session_company_id s = companyId) (sessions db)"

definition session_count :: "database \<Rightarrow> int \<Rightarrow> int \<Rightarrow> nat" where
  "session_count db companyId ctid = length (contact_sessions db companyId ctid)"

definition active_sessions :: "database \<Rightarrow> int \<Rightarrow> int \<Rightarrow> nat" where
  "active_sessions db companyId ctid =
     length (filter (\<lambda>s. session_status s \<in> {1, 2}) (contact_sessions db companyId ctid))"

definition metrics_active_sessions :: "database \<Rightarrow> int \<Rightarrow> nat" where
  "metrics_active_sessions db companyId =
     length (filter (\<lambda>s. session_status s \<in> {0, 1, 2}) (list_sessions db companyId))"

text \<open>
  Claim C7 at its failing input. Contact 5 has one session under company 2, in status 0.
  The contacts listing reports one session and no active session, although one session of
  the contact has its status in \<open>{0, 1, 2}\<close>; the metrics count that same session as active.
\<close>

theorem contact_rollup_misses_new_sessions:
  "session_count example_db 2 5 = 1
   \<and> active_sessions example_db 2 5 = 0
   \<and> length (filter (\<lambda>s. session_status s \<in> {0, 1, 2}) (contact_sessions example_db 2 5)) = 1
   \<and> metrics_active_sessions example_db 2 = 1"
  by (simp add: session_count_def active_sessions_def contact_sessions_def
      metrics_active_sessions_def list_sessions_def example_db_def)

section \<open>Latest-message enrichment\<close>

























section \<open>Statements, parameters and the query function\<close>

text \<open>
  The listings and the search routes build their statements as text with positional
  placeholders \<^verbatim>\<open>$1\<close>, \<^verbatim>\<open>$2\<close>, ... and pass a parameter array beside it. A
  parameter is a JavaScript string or a number (\<open>None\<close> for \<^verbatim>\<open>NaN\<close>). The statement
  texts below keep the \<^verbatim>\<open>FROM\<close> and \<^verbatim>\<open>WHERE\<close> parts of the source with every
  placeholder; select lists and line breaks are shortened.

  The storage engine is a parameter: it maps a statement and its parameters to rows, or
  raises (\<open>None\<close>). What the wire protocol checks before the engine runs anything is
  modelled: the parameters supplied must be exactly those the statement refers to, that is,
  the placeholders of the text are the numbers from 1 to the length of the parameter array
  (otherwise the engine answers ``bind message supplies n parameters, but prepared
  statement requires m'' or ``could not determine data type of parameter''). A row is the
  list of its column values.
\<close>

datatype param =
    PText string
  | PNumber "int option"

type_synonym issued = "string \<times> param list"

type_synonym engine = "string \<Rightarrow> param list \<Rightarrow> param list list option"

fun placeholders :: "string \<Rightarrow> nat list" where
  "placeholders [] = []"
| "placeholders (c # cs) =
     (if c = CHR ''$'' \<and> take_digits 10 cs \<noteq> []
      then nat (digits_to_int 10 (take_digits 10 cs)) # placeholders cs
      else placeholders cs)"

definition bind_ok :: "string \<Rightarrow> param list \<Rightarrow> bool" where
  "bind_ok sql params =
     (list_all (\<lambda>i. 1 \<le> i \<and> i \<le> length params) (placeholders sql)
      \<and> list_all (\<lambda>i. i \<in> set (placeholders sql)) [1 ..< Suc (length params)])"

definition pg_query :: "engine \<Rightarrow> string \<Rightarrow> param list \<Rightarrow> param list list option" where
  "pg_query eng sql params = (if bind_ok sql params then eng sql params else None)"

text \<open>
  Template literals render the placeholder numbers in decimal.
  \<^verbatim>\<open>String.prototype.replace\<close> with a string pattern replaces the first occurrence only;
  the replacement texts of the source (\<^verbatim>\<open>$2\<close>, \<^verbatim>\<open>$3\<close>, ...) contain no
  replacement pattern that applies to a string pattern, so they are inserted as they are.
\<close>

definition digit_char :: "nat \<Rightarrow> char" where
  "digit_char d = ''0123456789'' ! d"

function show_nat :: "nat \<Rightarrow> string" where
  "show_nat n = (if n < 10 then [digit_char n] else show_nat (n div 10) @ [digit_char (n mod 10)])"
  by pat_completeness auto
termination
  by (relation "measure (\<lambda>n. n)") auto

declare show_nat.simps [simp del]

fun js_replace :: "string \<Rightarrow> string \<Rightarrow> string \<Rightarrow> string" where
  "js_replace [] pat rep = (if pat = [] then rep else [])"
| "js_replace (c # cs) pat rep =
     (if take (length pat) (c # cs) = pat then rep @ drop (length pat) (c # cs)
      else c # js_replace cs pat rep)"

text \<open>
  \<^verbatim>\<open>isNaN(v)\<close> for a query value: the value is converted to a string and read as a
  numeric literal (surrounding whitespace dropped; the empty string is 0; a signed decimal
  literal with optional fraction and exponent, \<^verbatim>\<open>Infinity\<close>, or an unsigned hexadecimal,
  octal or binary literal).
\<close>

definition all_digits :: "nat \<Rightarrow> string \<Rightarrow> bool" where
  "all_digits R s = (s \<noteq> [] \<and> list_all (\<lambda>c. radix_digit R c \<noteq> None) s)"

definition is_dec :: "char \<Rightarrow> bool" where
  "is_dec c = (radix_digit 10 c \<noteq> None)"

definition exponent_part :: "string \<Rightarrow> bool" where
  "exponent_part s =
     (case s of
        [] \<Rightarrow> True
      | c # cs \<Rightarrow> (c = CHR ''e'' \<or> c = CHR ''E'') \<and> all_digits 10 (snd (strip_sign cs)))"

definition unsigned_decimal :: "string \<Rightarrow> bool" where
  "unsigned_decimal s =
     (s = ''Infinity''
      \<or> (let ip = takeWhile is_dec s; r1 = dropWhile is_dec s
          in case r1 of
               c # r2 \<Rightarrow>
                 if c = CHR ''.''
                 then (ip \<noteq> [] \<or> takeWhile is_dec r2 \<noteq> []) \<and> exponent_part (dropWhile is_dec r2)
                 else ip \<noteq> [] \<and> exponent_part r1
             | [] \<Rightarrow> ip \<noteq> []))"

definition non_decimal_literal :: "string \<Rightarrow> bool" where
  "non_decimal_literal s =
     (case s of
        a # b # cs \<Rightarrow>
          a = CHR ''0''
          \<and> ((b \<in> set ''xX'' \<and> all_digits 16 cs)
              \<or> (b \<in> set ''oO'' \<and> all_digits 8 cs)
              \<or> (b \<in> set ''bB'' \<and> all_digits 2 cs))
      | _ \<Rightarrow> False)"

definition js_isNaN :: "string \<Rightarrow> bool" where
  "js_isNaN s =
     (let t = js_trim s
      in \<not> (t = [] \<or> non_decimal_literal t \<or> unsigned_decimal (snd (strip_sign t))))"

section \<open>Paginated listings: page statement and count statement\<close>

text \<open>
  The query of a listing request after destructuring: \<^verbatim>\<open>page\<close>, \<^verbatim>\<open>limit\<close>,
  \<^verbatim>\<open>search\<close> and \<^verbatim>\<open>status\<close> are \<open>JUndefined\<close> when the request does not carry
  them, and then take the defaults 1, 20, the empty string and \<^verbatim>\<open>null\<close>. The company
  is \<^verbatim>\<open>company_id || req.companyId\<close>.
\<close>

record listing_request =
  lr_company :: jsval
  lr_page :: jsval
  lr_limit :: jsval
  lr_search :: jsval
  lr_status :: jsval

definition with_default :: "jsval \<Rightarrow> string \<Rightarrow> string" where
  "with_default v d = (if v = JUndefined then d else js_to_string v)"

definition js_times :: "int option \<Rightarrow> int option \<Rightarrow> int option" where
  "js_times a b = (case (a, b) of (Some x, Some y) \<Rightarrow> Some (x * y) | _ \<Rightarrow> None)"

definition js_minus1 :: "int option \<Rightarrow> int option" where
  "js_minus1 a = map_option (\<lambda>x. x - 1) a"

definition limit_of :: "listing_request \<Rightarrow> string \<Rightarrow> int option" where
  "limit_of req d = js_parseInt (with_default (lr_limit req) d)"

definition offset_of :: "listing_request \<Rightarrow> string \<Rightarrow> int option" where
  "offset_of req d = js_times (js_minus1 (js_parseInt (with_default (lr_page req) ''1''))) (limit_of req d)"

definition company_param :: "listing_request \<Rightarrow> param" where
  "company_param req = PText (js_to_string (lr_company req))"

definition search_on :: "listing_request \<Rightarrow> bool" where
  "search_on req = js_truthy (lr_search req)"

definition search_param :: "listing_request \<Rightarrow> param" where
  "search_param req = PText (''%'' @ js_to_string (lr_search req) @ ''%'')"

definition status_given :: "listing_request \<Rightarrow> bool" where
  "status_given req = (lr_status req \<noteq> JUndefined)"

definition status_on :: "listing_request \<Rightarrow> bool" where
  "status_on req = (status_given req \<and> \<not> js_isNaN (js_to_string (lr_status req)))"

definition status_param :: "listing_request \<Rightarrow> param" where
  "status_param req = PNumber (js_parseInt (js_to_string (lr_status req)))"

text \<open>
  \<^verbatim>\<open>GET /api/conversations\<close>. The search filter is built first and uses one placeholder
  three times; the status filter takes the next placeholder. The count statement rewrites
  the two filters with \<^verbatim>\<open>replace\<close> and gets a parameter array of its own.
\<close>

definition conv_paramIndex :: "listing_request \<Rightarrow> nat" where
  "conv_paramIndex req = (if search_on req then 5 else 4)"

definition conv_searchFilter :: "listing_request \<Rightarrow> string" where
  "conv_searchFilter req =
     (if search_on req
      then ''AND (ct.name ILIKE $'' @ show_nat 4 @ '' OR ct.phone_number::text ILIKE $'' @ show_nat 4
           @ '' OR ct.email ILIKE $'' @ show_nat 4 @ '')''
      else [])"

definition conv_statusFilter :: "listing_request \<Rightarrow> string" where
  "conv_statusFilter req =
     (if status_on req then ''AND s.status = $'' @ show_nat (conv_paramIndex req) else [])"

definition conv_page_statement :: "listing_request \<Rightarrow> issued" where
  "conv_page_statement req =
     (''SELECT DISTINCT ON (s.id) ... FROM sessions s LEFT JOIN contacts ct ON s.contact_id = ct.id ''
      @ ''LEFT JOIN LATERAL (...) last_msg ON true LEFT JOIN LATERAL (...) msg_count ON true ''
      @ ''WHERE s.company_id = $1 '' @ conv_searchFilter req @ '' '' @ conv_statusFilter req
      @ '' ORDER BY s.id, last_msg.created_at DESC NULLS LAST LIMIT $2 OFFSET $3'',
      [company_param req, PNumber (limit_of req ''20''), PNumber (offset_of req ''20'')]
      @ (if search_on req then [search_param req] else [])
      @ (if status_on req then [status_param req] else []))"

definition conv_count_statement :: "listing_request \<Rightarrow> issued" where
  "conv_count_statement req =
     (''SELECT COUNT(DISTINCT s.id) as total FROM sessions s ''
      @ ''LEFT JOIN contacts ct ON s.contact_id = ct.id ''
      @ ''LEFT JOIN conversations c ON s.id = c.session_id WHERE s.company_id = $1 ''
      @ js_replace (conv_searchFilter req) (''$'' @ show_nat (conv_paramIndex req - 1)) ''$2''
      @ '' ''
      @ js_replace (conv_statusFilter req) (''$'' @ show_nat (conv_paramIndex req))
          (''$'' @ show_nat (if search_on req then 3 else 2)),
      (if search_on req then [company_param req, search_param req] else [company_param req])
      @ (if status_given req then [status_param req] else []))"

text \<open>
  \<^verbatim>\<open>GET /api/leads\<close>. Here the status filter comes first and the search filter second;
  \<^verbatim>\<open>paramIndex\<close> is advanced after the status filter only. The count parameters start
  from \<^verbatim>\<open>queryParams.slice(0, paramIndex - 2)\<close>, commented ``Remove limit and offset''.
\<close>

definition leads_paramIndex :: "listing_request \<Rightarrow> nat" where
  "leads_paramIndex req = (if status_on req then 5 else 4)"

definition leads_statusFilter :: "listing_request \<Rightarrow> string" where
  "leads_statusFilter req = (if status_on req then ''AND l.status = $'' @ show_nat 4 else [])"

definition leads_searchFilter :: "listing_request \<Rightarrow> string" where
  "leads_searchFilter req =
     (if search_on req
      then ''AND (l.name ILIKE $'' @ show_nat (leads_paramIndex req)
           @ '' OR l.email ILIKE $'' @ show_nat (leads_paramIndex req)
           @ '' OR l.phone_number ILIKE $'' @ show_nat (leads_paramIndex req) @ '')''
      else [])"

definition leads_queryParams :: "listing_request \<Rightarrow> param list" where
  "leads_queryParams req =
     [company_param req, PNumber (limit_of req ''20''), PNumber (offset_of req ''20'')]
     @ (if status_on req then [status_param req] else [])
     @ (if search_on req then [search_param req] else [])"

definition leads_page_statement :: "listing_request \<Rightarrow> issued" where
  "leads_page_statement req =
     (''SELECT ... FROM leads l LEFT JOIN contacts ct ON l.contact_id = ct.id ''
      @ ''WHERE l.company_id = $1 '' @ leads_statusFilter req @ '' '' @ leads_searchFilter req
      @ '' ORDER BY l.created_at DESC LIMIT $2 OFFSET $3'',
      leads_queryParams req)"

definition leads_countParams :: "listing_request \<Rightarrow> param list" where
  "leads_countParams req = take (leads_paramIndex req - 2) (leads_queryParams req)"

definition leads_count_statement :: "listing_request \<Rightarrow> issued" where
  "leads_count_statement req =
     (''SELECT COUNT(*) as total FROM leads l LEFT JOIN contacts ct ON l.contact_id = ct.id ''
      @ ''WHERE l.company_id = $1 ''
      @ js_replace (leads_statusFilter req) (''$'' @ show_nat (leads_paramIndex req - 1))
          (''$'' @ show_nat (length (leads_countParams req) + 1))
      @ '' ''
      @ js_replace (leads_searchFilter req) (''$'' @ show_nat (leads_paramIndex req))
          (''$'' @ show_nat (length (leads_countParams req) + (if status_given req then 2 else 1))),
      leads_countParams req
      @ (if status_on req then [status_param req] else [])
      @ (if search_on req then [search_param req] else []))"

text \<open>
  Both handlers have the same shape: 400 without a company, then the page statement, then
  the count statement, then \<^verbatim>\<open>parseInt(countResult.rows[0].total)\<close> (which throws
  when the count statement returned no row); any exception is answered with 500 and the
  route's message. The reply carries the page rows and the
  total (the page count and the two flags are computed from the total and are left out).
  The handler also yields the statements it passed to the query function.
\<close>

definition count_total :: "param list list \<Rightarrow> int option option" where
  "count_total rows =
     (case rows of
        [] \<Rightarrow> None
      | [] # rest \<Rightarrow> Some None
      | (PText t # cols) # rest \<Rightarrow> Some (js_parseInt t)
      | (PNumber n # cols) # rest \<Rightarrow> Some n)"

definition run_listing ::
  "engine \<Rightarrow> string \<Rightarrow> listing_request \<Rightarrow> issued \<Rightarrow> issued
     \<Rightarrow> (param list list \<times> int option) reply \<times> issued list" where
  "run_listing eng failure req page_st count_st =
     (if \<not> js_truthy (lr_company req) then (Failure 400 ''Company ID is required'', [])
      else
        (case pg_query eng (fst page_st) (snd page_st) of
           None \<Rightarrow> (Failure 500 failure, [page_st])
         | Some rows \<Rightarrow>
             (case pg_query eng (fst count_st) (snd count_st) of
                None \<Rightarrow> (Failure 500 failure, [page_st, count_st])
              | Some countRows \<Rightarrow>
                  (case count_total countRows of
                     None \<Rightarrow> (Failure 500 failure, [page_st, count_st])
                   | Some total_rows \<Rightarrow> (Success (rows, total_rows), [page_st, count_st])))))"

definition conversations_listing ::
  "engine \<Rightarrow> listing_request \<Rightarrow> (param list list \<times> int option) reply \<times> issued list" where
  "conversations_listing eng req =
     run_listing eng ''Failed to fetch conversations'' req
       (conv_page_statement req) (conv_count_statement req)"

definition leads_listing ::
  "engine \<Rightarrow> listing_request \<Rightarrow> (param list list \<times> int option) reply \<times> issued list" where
  "leads_listing eng req =
     run_listing eng ''Failed to fetch leads'' req
       (leads_page_statement req) (leads_count_statement req)"

section \<open>Search routes\<close>

text \<open>
  The five handlers of \<^verbatim>\<open>/api/search\<close> start with
  \<^verbatim>\<open>!searchQuery || searchQuery.trim().length < 2\<close>. A falsy \<^verbatim>\<open>q\<close> is too short; a
  string is measured after trimming; any other truthy value (an array or object of the
  query parser) has no \<^verbatim>\<open>trim\<close> method, so the call throws and the handler's
  \<^verbatim>\<open>catch\<close> answers 500. The company of \<^verbatim>\<open>/api/search/contacts\<close> is the raw
  \<^verbatim>\<open>company_id\<close>; the other four run behind the tenant guard and use
  \<^verbatim>\<open>company_id || req.companyId\<close>. A handler yields its reply (the row sets of its
  statements) and the statements it passed to the query function. The quoted, accented
  column names of the stock table are written without quotes and accents.
\<close>

record search_request =
  sr_q :: jsval
  sr_company :: jsval
  sr_limit :: jsval
  sr_session_status :: jsval
  sr_lead_source :: jsval
  sr_channel :: jsval

datatype search_check =
    Too_short
  | Long_enough string
  | Throws

definition check_search :: "jsval \<Rightarrow> search_check" where
  "check_search q =
     (if \<not> js_truthy q then Too_short
      else (case q of
              JStr s \<Rightarrow> if length (js_trim s) < 2 then Too_short else Long_enough (js_trim s)
            | _ \<Rightarrow> Throws))"

definition too_short_reply :: "param list list list reply \<times> issued list" where
  "too_short_reply = (Failure 400 ''Search query must be at least 2 characters long'', [])"

definition search_limit :: "search_request \<Rightarrow> param" where
  "search_limit req = PNumber (js_parseInt (with_default (sr_limit req) ''20''))"

definition run_one ::
  "engine \<Rightarrow> string \<Rightarrow> issued \<Rightarrow> param list list list reply \<times> issued list" where
  "run_one eng failure st =
     (case pg_query eng (fst st) (snd st) of
        None \<Rightarrow> (Failure 500 failure, [st])
      | Some rows \<Rightarrow> (Success [rows], [st]))"

definition search_contacts ::
  "engine \<Rightarrow> search_request \<Rightarrow> param list list list reply \<times> issued list" where
  "search_contacts eng req =
     (case check_search (sr_q req) of
        Too_short \<Rightarrow> too_short_reply
      | Throws \<Rightarrow> (Failure 500 ''Failed to search contacts'', [])
      | Long_enough t \<Rightarrow>
          run_one eng ''Failed to search contacts''
            (''SELECT DISTINCT ... FROM contacts c WHERE (c.name ILIKE $1 OR c.email ILIKE $1 ''
             @ ''OR c.phone_number::text ILIKE $1) ''
             @ (if js_truthy (sr_company req)
                then ''AND EXISTS (SELECT 1 FROM contact_company cc ''
                     @ ''WHERE cc.contact_id = c.id AND cc.company_id = $3)''
                else [])
             @ '' ORDER BY c.created_at DESC LIMIT $2'',
             [PText (''%'' @ t @ ''%''), search_limit req]
             @ (if js_truthy (sr_company req)
                then [PNumber (js_parseInt (js_to_string (sr_company req)))] else [])))"

definition search_conversations ::
  "engine \<Rightarrow> search_request \<Rightarrow> param list list list reply \<times> issued list" where
  "search_conversations eng req =
     (case check_search (sr_q req) of
        Too_short \<Rightarrow> too_short_reply
      | Throws \<Rightarrow> (Failure 500 ''Failed to search conversations'', [])
      | Long_enough t \<Rightarrow>
          if \<not> js_truthy (sr_company req) then (Failure 400 ''Company ID is required'', [])
          else
            (let status_on = (sr_session_status req \<noteq> JUndefined
                              \<and> \<not> js_isNaN (js_to_string (sr_session_status req)))
             in run_one eng ''Failed to search conversations''
                  (''SELECT DISTINCT ... FROM conversations c JOIN sessions s ON c.session_id = s.id ''
                   @ ''LEFT JOIN contacts ct ON s.contact_id = ct.id ''
                   @ ''WHERE s.company_id = $1 AND c.content ILIKE $2 ''
                   @ (if status_on then ''AND s.status = $4'' else [])
                   @ '' ORDER BY c.created_at DESC LIMIT $3'',
                   [PText (js_to_string (sr_company req)), PText (''%'' @ t @ ''%''), search_limit req]
                   @ (if status_on
                      then [PNumber (js_parseInt (js_to_string (sr_session_status req)))]
                      else []))))"

definition search_leads ::
  "engine \<Rightarrow> search_request \<Rightarrow> param list list list reply \<times> issued list" where
  "search_leads eng req =
     (case check_search (sr_q req) of
        Too_short \<Rightarrow> too_short_reply
      | Throws \<Rightarrow> (Failure 500 ''Failed to search leads'', [])
      | Long_enough t \<Rightarrow>
          if \<not> js_truthy (sr_company req) then (Failure 400 ''Company ID is required'', [])
          else
            (let source_on = js_truthy (sr_lead_source req);
                 channel_on = js_truthy (sr_channel req);
                 filters = (if source_on then [''l.lead_source = $'' @ show_nat 4] else [])
                           @ (if channel_on
                              then [''l.channel = $'' @ show_nat (if source_on then 5 else 4)]
                              else []);
                 whereClause = (case filters of
                                  [] \<Rightarrow> []
                                | [a] \<Rightarrow> ''AND '' @ a
                                | a # b # rest \<Rightarrow> ''AND '' @ a @ '' AND '' @ b)
             in run_one eng ''Failed to search leads''
                  (''SELECT ... FROM leads l LEFT JOIN contacts ct ON l.contact_id = ct.id ''
                   @ ''LEFT JOIN transferred_leads tl ON l.id = tl.lead_id ''
                   @ ''LEFT JOIN discarded_leads dl ON l.id = dl.lead_id ''
                   @ ''WHERE l.company_id = $1 AND (l.name ILIKE $2 OR l.email ILIKE $2 ''
                   @ ''OR l.phone_number ILIKE $2 OR l.location ILIKE $2 OR ct.name ILIKE $2) ''
                   @ whereClause @ '' ORDER BY l.created_at DESC LIMIT $3'',
                   [PText (js_to_string (sr_company req)), PText (''%'' @ t @ ''%''), search_limit req]
                   @ (if source_on then [PText (js_to_string (sr_lead_source req))] else [])
                   @ (if channel_on then [PText (js_to_string (sr_channel req))] else []))))"

definition search_stock ::
  "engine \<Rightarrow> search_request \<Rightarrow> param list list list reply \<times> issued list" where
  "search_stock eng req =
     (case check_search (sr_q req) of
        Too_short \<Rightarrow> too_short_reply
      | Throws \<Rightarrow> (Failure 500 ''Failed to search stock'', [])
      | Long_enough t \<Rightarrow>
          if \<not> js_truthy (sr_company req) then (Failure 400 ''Company ID is required'', [])
          else
            (let name_st = (''SELECT name FROM companies WHERE id = $1'',
                            [PText (js_to_string (sr_company req))])
             in case pg_query eng (fst name_st) (snd name_st) of
                  None \<Rightarrow> (Failure 500 ''Failed to search stock'', [name_st])
                | Some [] \<Rightarrow> (Failure 404 ''Company not found'', [name_st])
                | Some (row # rest) \<Rightarrow>
                    (let companyName = (case row of [] \<Rightarrow> PText [] | col # cols \<Rightarrow> col);
                         stock_st =
                           (''SELECT ... FROM stock WHERE EMPRESA = $1 AND (MARCA ILIKE $2 ''
                            @ ''OR MODELO ILIKE $2 OR VERSAO ILIKE $2 OR MATRICULA ILIKE $2 ''
                            @ ''OR VIN ILIKE $2 OR CATEGORIA ILIKE $2 OR TAGS ILIKE $2 ''
                            @ ''OR LOCAL ILIKE $2) ORDER BY created_at DESC LIMIT $3'',
                            [companyName, PText (''%'' @ t @ ''%''), search_limit req])
                     in case pg_query eng (fst stock_st) (snd stock_st) of
                          None \<Rightarrow> (Failure 500 ''Failed to search stock'', [name_st, stock_st])
                        | Some rows \<Rightarrow> (Success [rows], [name_st, stock_st]))))"

definition search_global ::
  "engine \<Rightarrow> search_request \<Rightarrow> param list list list reply \<times> issued list" where
  "search_global eng req =
     (case check_search (sr_q req) of
        Too_short \<Rightarrow> too_short_reply
      | Throws \<Rightarrow> (Failure 500 ''Failed to perform global search'', [])
      | Long_enough t \<Rightarrow>
          if \<not> js_truthy (sr_company req) then (Failure 400 ''Company ID is required'', [])
          else
            (let ps = [PText (js_to_string (sr_company req)), PText (''%'' @ t @ ''%'')];
                 contacts_st =
                   (''SELECT ... FROM contacts c WHERE EXISTS (SELECT 1 FROM contact_company cc ''
                    @ ''WHERE cc.contact_id = c.id AND cc.company_id = $1) AND (c.name ILIKE $2 ''
                    @ ''OR c.email ILIKE $2 OR c.phone_number::text ILIKE $2) LIMIT 5'', ps);
                 conversations_st =
                   (''SELECT ... FROM conversations c JOIN sessions s ON c.session_id = s.id ''
                    @ ''LEFT JOIN contacts ct ON s.contact_id = ct.id ''
                    @ ''WHERE s.company_id = $1 AND c.content ILIKE $2 LIMIT 5'', ps);
                 leads_st =
                   (''SELECT ... FROM leads WHERE company_id = $1 AND (name ILIKE $2 ''
                    @ ''OR email ILIKE $2 OR phone_number ILIKE $2) LIMIT 5'', ps);
                 sts = [contacts_st, conversations_st, leads_st]
             in case (pg_query eng (fst contacts_st) ps, pg_query eng (fst conversations_st) ps,
                      pg_query eng (fst leads_st) ps) of
                  (Some a, Some b, Some c) \<Rightarrow> (Success [a, b, c], sts)
                | _ \<Rightarrow> (Failure 500 ''Failed to perform global search'', sts)))"

definition search_endpoints ::
  "(engine \<Rightarrow> search_request \<Rightarrow> param list list list reply \<times> issued list) list" where
  "search_endpoints =
     [search_contacts, search_conversations, search_leads, search_stock, search_global]"

definition empty_engine :: engine where
  "empty_engine sql params = Some []"

definition listing_example :: "string \<Rightarrow> listing_request" where
  "listing_example s =
     \<lparr>lr_company = JStr ''2'', lr_page = JUndefined, lr_limit = JUndefined,
      lr_search = JStr s, lr_status = JUndefined\<rparr>"

definition search_example :: "string \<Rightarrow> search_request" where
  "search_example s =
     \<lparr>sr_q = JStr s, sr_company = JStr ''2'', sr_limit = JUndefined,
      sr_session_status = JUndefined, sr_lead_source = JUndefined, sr_channel = JUndefined\<rparr>"

lemma conv_count_with_search:
  "placeholders (fst (conv_count_statement (listing_example ''ab''))) = [1, 2, 4, 4]
   \<and> snd (conv_count_statement (listing_example ''ab'')) = [PText ''2'', PText ''%ab%'']"
  by code_simp

lemma conv_page_with_search:
  "placeholders (fst (conv_page_statement (listing_example ''ab''))) = [1, 4, 4, 4, 2, 3]
   \<and> snd (conv_page_statement (listing_example ''ab'')) =
       [PText ''2'', PNumber (Some 20), PNumber (Some 0), PText ''%ab%'']"
  by code_simp

lemma leads_count_plain:
  "placeholders (fst (leads_count_statement (listing_example []))) = [1]
   \<and> snd (leads_count_statement (listing_example [])) = [PText ''2'', PNumber (Some 20)]"
  by code_simp

lemma leads_page_plain:
  "placeholders (fst (leads_page_statement (listing_example []))) = [1, 2, 3]
   \<and> snd (leads_page_statement (listing_example [])) =
       [PText ''2'', PNumber (Some 20), PNumber (Some 0)]"
  by code_simp

lemma run_listing_count_unbound:
  assumes "js_truthy (lr_company req)" and "\<not> bind_ok (fst count_st) (snd count_st)"
  shows "fst (run_listing eng failure req page_st count_st) = Failure 500 failure"
  using assms by (simp add: run_listing_def pg_query_def split: option.splits)

text \<open>
  The text of a count statement depends on the request only through the tests the handler
  makes (is there a search string, is the status a number, is a status given at all), so
  it can be computed on one representative request for each outcome of these tests.
\<close>

definition flags_request :: "bool \<Rightarrow> jsval \<Rightarrow> listing_request" where
  "flags_request s st =
     \<lparr>lr_company = JStr ''2'', lr_page = JUndefined, lr_limit = JUndefined,
      lr_search = (if s then JStr ''ab'' else JUndefined), lr_status = st\<rparr>"

definition status_flag :: "listing_request \<Rightarrow> jsval" where
  "status_flag req =
     (if status_on req then JStr ''1'' else if status_given req then JStr ''x'' else JUndefined)"

lemma isNaN_examples: "\<not> js_isNaN ''1''" "js_isNaN ''x''"
  by code_simp+

lemma flags_request_flags:
  "search_on (flags_request s st) = s"
  "status_on (flags_request s (status_flag req)) = status_on req"
  "status_given (flags_request s (status_flag req)) = status_given req"
  by (auto simp: flags_request_def status_flag_def search_on_def status_on_def status_given_def
      isNaN_examples)

lemma conv_count_text_flags:
  "fst (conv_count_statement req) =
     fst (conv_count_statement (flags_request (search_on req) (status_flag req)))"
  by (simp add: conv_count_statement_def conv_searchFilter_def conv_statusFilter_def
      conv_paramIndex_def flags_request_flags del: append.simps)

lemma leads_countParams_length:
  "length (leads_countParams req) = (if status_on req then 3 else 2)"
  by (simp add: leads_countParams_def leads_queryParams_def leads_paramIndex_def)

lemma leads_count_text_flags:
  "fst (leads_count_statement req) =
     fst (leads_count_statement (flags_request (search_on req) (status_flag req)))"
  by (simp add: leads_count_statement_def leads_searchFilter_def leads_statusFilter_def
      leads_paramIndex_def leads_countParams_length flags_request_flags del: append.simps)

lemma conv_count_refers_to_4:
  "4 \<in> set (placeholders (fst (conv_count_statement (flags_request True (JStr ''1'')))))"
  "4 \<in> set (placeholders (fst (conv_count_statement (flags_request True (JStr ''x'')))))"
  "4 \<in> set (placeholders (fst (conv_count_statement (flags_request True JUndefined))))"
  by code_simp+

lemma leads_count_skips_2:
  "2 \<notin> set (placeholders (fst (leads_count_statement (flags_request True (JStr ''1'')))))"
  "2 \<notin> set (placeholders (fst (leads_count_statement (flags_request True (JStr ''x'')))))"
  "2 \<notin> set (placeholders (fst (leads_count_statement (flags_request True JUndefined))))"
  "2 \<notin> set (placeholders (fst (leads_count_statement (flags_request False (JStr ''1'')))))"
  "2 \<notin> set (placeholders (fst (leads_count_statement (flags_request False (JStr ''x'')))))"
  "2 \<notin> set (placeholders (fst (leads_count_statement (flags_request False JUndefined))))"
  by code_simp+

lemma bind_ok_upper:
  "bind_ok sql ps \<Longrightarrow> i \<in> set (placeholders sql) \<Longrightarrow> i \<le> length ps"
  unfolding bind_ok_def list_all_iff by blast

lemma bind_ok_covers:
  assumes "bind_ok sql ps" and "1 \<le> i" and "i \<le> length ps"
  shows "i \<in> set (placeholders sql)"
proof -
  from assms(1) have "\<forall>j \<in> set [1 ..< Suc (length ps)]. j \<in> set (placeholders sql)"
    unfolding bind_ok_def list_all_iff by blast
  moreover have "i \<in> set [1 ..< Suc (length ps)]"
    using assms(2,3) by auto
  ultimately show ?thesis by blast
qed

lemma conv_count_params_length: "length (snd (conv_count_statement req)) \<le> 3"
  unfolding conv_count_statement_def snd_conv by simp

lemma conv_count_refers_to_4_any:
  assumes "search_on req"
  shows "4 \<in> set (placeholders (fst (conv_count_statement req)))"
proof -
  have "4 \<in> set (placeholders (fst (conv_count_statement (flags_request True (status_flag req)))))"
    using conv_count_refers_to_4
    by (cases "status_on req"; cases "status_given req"; simp only: status_flag_def if_True if_False)
  then show ?thesis
    using assms by (simp only: conv_count_text_flags [of req] simp_thms)
qed

lemma conv_count_unbound:
  assumes "search_on req"
  shows "\<not> bind_ok (fst (conv_count_statement req)) (snd (conv_count_statement req))"
  using bind_ok_upper [OF _ conv_count_refers_to_4_any [OF assms]]
    conv_count_params_length [of req]
  by fastforce

lemma leads_count_params_length: "2 \<le> length (snd (leads_count_statement req))"
  unfolding leads_count_statement_def snd_conv by (simp add: leads_countParams_length)

lemma leads_count_skips_2_any:
  "2 \<notin> set (placeholders (fst (leads_count_statement req)))"
proof -
  have "2 \<notin> set (placeholders (fst (leads_count_statement
            (flags_request (search_on req) (status_flag req)))))"
    using leads_count_skips_2
    by (cases "search_on req"; cases "status_on req"; cases "status_given req";
        simp only: status_flag_def if_True if_False simp_thms)
  then show ?thesis
    by (simp only: leads_count_text_flags [of req] simp_thms)
qed

lemma leads_count_unbound:
  "\<not> bind_ok (fst (leads_count_statement req)) (snd (leads_count_statement req))"
  using bind_ok_covers [of "fst (leads_count_statement req)" "snd (leads_count_statement req)" 2]
    leads_count_params_length [of req] leads_count_skips_2_any [of req]
  by fastforce

lemma conversations_listing_fails_with_search:
  assumes "js_truthy (lr_company req)" and "search_on req"
  shows "fst (conversations_listing eng req) = Failure 500 ''Failed to fetch conversations''"
  unfolding conversations_listing_def
  using assms(1) conv_count_unbound [OF assms(2)] by (rule run_listing_count_unbound)

lemma leads_listing_fails:
  assumes "js_truthy (lr_company req)"
  shows "fst (leads_listing eng req) = Failure 500 ''Failed to fetch leads''"
  unfolding leads_listing_def
  using assms leads_count_unbound by (rule run_listing_count_unbound)

text \<open>
  Claim C2 at its failing inputs. With \<^verbatim>\<open>search=ab\<close> the page statement of the
  conversations listing refers to parameters 1 to 4 and gets four, but its count statement
  still refers to \<^verbatim>\<open>$4\<close> (only the first of the three occurrences was rewritten to
  \<^verbatim>\<open>$2\<close>) and gets two parameters. Without any filter the count statement of the leads
  listing refers to \<^verbatim>\<open>$1\<close> only and gets two parameters, the company and the limit.
  Neither count statement can be bound, so both handlers answer 500 whatever the engine
  holds, and no total is reported. (By the lemmas above the same happens for every
  conversations request with a search string and for every leads request.)
\<close>

theorem count_statements_misaligned:
  "placeholders (fst (conv_page_statement (listing_example ''ab''))) = [1, 4, 4, 4, 2, 3]
   \<and> length (snd (conv_page_statement (listing_example ''ab''))) = 4
   \<and> placeholders (fst (conv_count_statement (listing_example ''ab''))) = [1, 2, 4, 4]
   \<and> snd (conv_count_statement (listing_example ''ab'')) = [PText ''2'', PText ''%ab%'']
   \<and> fst (conversations_listing eng (listing_example ''ab'')) =
       Failure 500 ''Failed to fetch conversations''
   \<and> placeholders (fst (leads_count_statement (listing_example []))) = [1]
   \<and> snd (leads_count_statement (listing_example [])) = [PText ''2'', PNumber (Some 20)]
   \<and> fst (leads_listing eng (listing_example [])) = Failure 500 ''Failed to fetch leads''"
proof -
  have t: "js_truthy (lr_company (listing_example s))" for s
    by (simp add: listing_example_def)
  have "search_on (listing_example ''ab'')"
    by (simp add: listing_example_def search_on_def)
  with t have "fst (conversations_listing eng (listing_example ''ab'')) =
      Failure 500 ''Failed to fetch conversations''"
    by (rule conversations_listing_fails_with_search)
  moreover from t have "fst (leads_listing eng (listing_example [])) =
      Failure 500 ''Failed to fetch leads''"
    by (rule leads_listing_fails)
  ultimately show ?thesis
    using conv_count_with_search conv_page_with_search leads_count_plain by simp
qed

text \<open>
  Claim C4, as the code has it. When \<^verbatim>\<open>q\<close> is missing, or is a string whose trimmed
  length is below 2, each of the five search handlers replies 400 ``Search query must be
  at least 2 characters long'' and passes no statement to the query function.
\<close>

theorem short_search_rejected:
  "sr_q req = JUndefined \<or> (\<exists>s. sr_q req = JStr s \<and> length (js_trim s) < 2) \<longrightarrow>
     list_all
       (\<lambda>h. h eng req = (Failure 400 ''Search query must be at least 2 characters long'', []))
       search_endpoints"
  by (auto simp: search_endpoints_def search_contacts_def search_conversations_def
      search_leads_def search_stock_def search_global_def check_search_def too_short_reply_def)

text \<open>
  The search string \<^verbatim>\<open>" a "\<close> has trimmed length 1: all five handlers refuse it without
  a statement. The string \<^verbatim>\<open>"ab"\<close> is accepted: the conversation search passes one
  statement to the query function.
\<close>

theorem short_search_rejected_witness:
  "length (js_trim '' a '') < 2
   \<and> list_all
       (\<lambda>h. h empty_engine (search_example '' a '') =
              (Failure 400 ''Search query must be at least 2 characters long'', []))
       search_endpoints
   \<and> length (snd (search_conversations empty_engine (search_example ''ab''))) = 1"
  using short_search_rejected [of "search_example '' a ''" empty_engine]
  by (simp add: search_example_def js_trim_def is_ws_def search_conversations_def
      check_search_def run_one_def pg_query_def empty_engine_def split: option.splits)

text \<open>
  Claim C4 as stated covers every endpoint that takes a search string, the conversations
  listing among them. Its \<^verbatim>\<open>search\<close> filter is guarded by \<^verbatim>\<open>if (search)\<close> alone: for
  the one-character search \<^verbatim>\<open>a\<close> the predicate is built with parameter \<^verbatim>\<open>%a%\<close>, two
  statements are passed to the query function, and the reply is not a 400.
\<close>

theorem listing_accepts_short_search:
  "length (js_trim ''a'') < 2
   \<and> PText ''%a%'' \<in> set (snd (conv_page_statement (listing_example ''a'')))
   \<and> snd (conversations_listing empty_engine (listing_example ''a'')) =
       [conv_page_statement (listing_example ''a''), conv_count_statement (listing_example ''a'')]
   \<and> status_code (fst (conversations_listing empty_engine (listing_example ''a''))) = 500"
  by code_simp

end
